theory Spec2Isabelle
  imports Main
begin

section \<open>JavaScript strings\<close>

text \<open>
  A JavaScript string is modelled as a \<open>string\<close> whose characters are the code units
  \<open>0..255\<close> (the Latin-1 range of UTF-16). On that range \<open>String.prototype.trim\<close>
  strips TAB, LF, VT, FF, CR, SPACE and NBSP, and \<open>toLowerCase\<close> maps \<open>A..Z\<close> and
  the accented capitals \<open>0xC0..0xDE\<close> (without the multiplication sign \<open>0xD7\<close>) to the
  code unit 32 above.
\<close>

definition isWhiteSpace :: "char \<Rightarrow> bool" where
  "isWhiteSpace c = (of_char c \<in> {9, 10, 11, 12, 13, 32, 160 :: nat})"

definition trim :: "string \<Rightarrow> string" where
  "trim s = rev (dropWhile isWhiteSpace (rev (dropWhile isWhiteSpace s)))"

definition toLowerChar :: "char \<Rightarrow> char" where
  "toLowerChar c =
     (let n = (of_char c :: nat) in
      if (65 \<le> n \<and> n \<le> 90) \<or> (192 \<le> n \<and> n \<le> 222 \<and> n \<noteq> 215)
      then char_of (n + 32) else c)"

definition toLowerCase :: "string \<Rightarrow> string" where
  "toLowerCase s = map toLowerChar s"

section \<open>Rate limiter (src/lib/rate-limiter.ts)\<close>

record RateLimitEntry =
  count :: int
  firstRequestAt :: int

text \<open>The process-wide \<open>Map<string, RateLimitEntry>\<close>.\<close>

type_synonym rateLimitStore = "string \<rightharpoonup> RateLimitEntry"

definition WINDOW_MS :: int where
  "WINDOW_MS = 60 * 60 * 1000"

definition MAX_REQUESTS_PER_IP :: int where
  "MAX_REQUESTS_PER_IP = 5"

definition MAX_REQUESTS_PER_EMAIL :: int where
  "MAX_REQUESTS_PER_EMAIL = 3"

text \<open>The period handed to \<open>setInterval(cleanupExpiredEntries, 15 * 60 * 1000)\<close>.\<close>

definition cleanupIntervalMs :: int where
  "cleanupIntervalMs = 15 * 60 * 1000"

text \<open>
  \<open>cleanupExpiredEntries\<close>: \<open>now\<close> is the value of \<open>Date.now()\<close> read at the start of the
  sweep; every entry with \<open>now - firstRequestAt > WINDOW_MS\<close> is deleted.
\<close>

definition cleanupExpiredEntries :: "int \<Rightarrow> rateLimitStore \<Rightarrow> rateLimitStore" where
  "cleanupExpiredEntries now store =
     (\<lambda>key. case store key of
        None \<Rightarrow> None
      | Some entry \<Rightarrow> if now - firstRequestAt entry > WINDOW_MS then None else Some entry)"

record RateLimitResult =
  allowed :: bool
  remaining :: int
  resetAt :: int

text \<open>
  \<open>checkRateLimit\<close>: the store and the clock reading \<open>now = Date.now()\<close> are passed in,
  the updated store is returned beside the result.
\<close>

definition checkRateLimit ::
  "int \<Rightarrow> rateLimitStore \<Rightarrow> string \<Rightarrow> int \<Rightarrow> RateLimitResult \<times> rateLimitStore" where
  "checkRateLimit now store identifier maxRequests =
     (let key = trim (toLowerCase identifier) in
      case store key of
        None \<Rightarrow>
          (\<lparr>allowed = True, remaining = maxRequests - 1, resetAt = now + WINDOW_MS\<rparr>,
           store(key \<mapsto> \<lparr>count = 1, firstRequestAt = now\<rparr>))
      | Some entry \<Rightarrow>
          if now - firstRequestAt entry > WINDOW_MS then
            (\<lparr>allowed = True, remaining = maxRequests - 1, resetAt = now + WINDOW_MS\<rparr>,
             store(key \<mapsto> \<lparr>count = 1, firstRequestAt = now\<rparr>))
          else if count entry \<ge> maxRequests then
            (\<lparr>allowed = False, remaining = 0, resetAt = firstRequestAt entry + WINDOW_MS\<rparr>,
             store)
          else
            (let entry' = entry\<lparr>count := count entry + 1\<rparr> in
             (\<lparr>allowed = True, remaining = maxRequests - count entry',
               resetAt = firstRequestAt entry' + WINDOW_MS\<rparr>,
              store(key \<mapsto> entry'))))"

definition checkIpRateLimit :: "int \<Rightarrow> rateLimitStore \<Rightarrow> string \<Rightarrow> RateLimitResult \<times> rateLimitStore" where
  "checkIpRateLimit now store ip = checkRateLimit now store (''ip:'' @ ip) MAX_REQUESTS_PER_IP"

definition checkEmailRateLimit :: "int \<Rightarrow> rateLimitStore \<Rightarrow> string \<Rightarrow> RateLimitResult \<times> rateLimitStore" where
  "checkEmailRateLimit now store email =
     checkRateLimit now store (''email:'' @ email) MAX_REQUESTS_PER_EMAIL"

text \<open>
  \<open>getResetTimeSeconds\<close>: \<open>Math.ceil((resetAt - Date.now()) / 1000)\<close>, with \<open>now\<close> the
  clock reading taken inside the call. On integers the ceiling of \<open>x / 1000\<close> is
  \<open>- ((- x) div 1000)\<close>, \<open>div\<close> rounding down.
\<close>

definition getResetTimeSeconds :: "int \<Rightarrow> int \<Rightarrow> int" where
  "getResetTimeSeconds now resetAtMs = - ((- (resetAtMs - now)) div 1000)"

text \<open>
  A run of checks of one identifier against one ceiling, one clock reading per check,
  threading the store from each check to the next.
\<close>

fun checkRepeatedly ::
  "rateLimitStore \<Rightarrow> string \<Rightarrow> int \<Rightarrow> int list \<Rightarrow> RateLimitResult list \<times> rateLimitStore" where
  "checkRepeatedly store identifier maxRequests [] = ([], store)"
| "checkRepeatedly store identifier maxRequests (now # later) =
     (case checkRateLimit now store identifier maxRequests of
        (r, store') \<Rightarrow>
          (case checkRepeatedly store' identifier maxRequests later of
             (rs, store'') \<Rightarrow> (r # rs, store'')))"

section \<open>JavaScript values read by the endpoint\<close>

text \<open>
  The values \<open>JSON.parse\<close> produces. Numbers are integers. \<open>JObj\<close> holds the properties
  of the parsed object, each name with its value, read with \<open>map_of\<close>. A value of type
  \<open>json option\<close> is what a property read gives: \<open>None\<close> is \<open>undefined\<close>.
\<close>

datatype json =
    JNull
  | JBool bool
  | JNum int
  | JStr string
  | JArr "json list"
  | JObj "(string \<times> json) list"

text \<open>
  The result of \<open>await response.json()\<close> once it resolves: \<open>null\<close>, or any other value,
  seen through its property reads (a number, a string or an array has none of the
  properties read here, an object has those it holds).
\<close>

datatype parsed = PNull | PValue "string \<Rightarrow> json option"

fun truthy :: "json option \<Rightarrow> bool" where
  "truthy None = False"
| "truthy (Some JNull) = False"
| "truthy (Some (JBool b)) = b"
| "truthy (Some (JNum n)) = (n \<noteq> 0)"
| "truthy (Some (JStr s)) = (s \<noteq> [])"
| "truthy (Some (JArr xs)) = True"
| "truthy (Some (JObj properties)) = True"

text \<open>
  What can be thrown: by a \<open>fetch\<close> that fails, by \<open>json()\<close> on a body that does not parse,
  by the engine (a property read on \<open>null\<close>, a call of what is not a function, a
  conversion of an object that has no primitive value), and by the host when a property of
  the context it passes is read.
\<close>

datatype js_throw = FetchError | SyntaxError | TypeError | HostError

text \<open>
  The \<open>length\<close> property of a truthy value (\<open>None\<close>: \<open>undefined\<close>): the number of code
  units of a string, the number of elements of an array, whatever an object holds under
  \<open>length\<close>, and nothing for a boolean or a number. The endpoint reads \<open>length\<close> of truthy
  values only, so the read never throws.
\<close>

fun jsLength :: "json option \<Rightarrow> json option" where
  "jsLength (Some (JStr s)) = Some (JNum (int (length s)))"
| "jsLength (Some (JArr xs)) = Some (JNum (int (length xs)))"
| "jsLength (Some (JObj properties)) = map_of properties ''length''"
| "jsLength v = None"

text \<open>
  \<open>x > k\<close> and \<open>x < k\<close> for a number \<open>k\<close>. \<open>undefined\<close> compares as \<open>NaN\<close>, \<open>null\<close> as 0,
  \<open>false\<close> and \<open>true\<close> as 0 and 1. A string, an array or an object is first turned into
  a number by the engine (\<open>ToPrimitive\<close>, \<open>ToNumber\<close>), which may throw for an object;
  that comparison is the parameter \<open>converted\<close>.
\<close>

fun jsGreater :: "(json \<Rightarrow> int \<Rightarrow> js_throw + bool) \<Rightarrow> json option \<Rightarrow> int \<Rightarrow> js_throw + bool" where
  "jsGreater converted None k = Inr False"
| "jsGreater converted (Some JNull) k = Inr (0 > k)"
| "jsGreater converted (Some (JBool b)) k = Inr ((if b then 1 else 0) > k)"
| "jsGreater converted (Some (JNum n)) k = Inr (n > k)"
| "jsGreater converted (Some v) k = converted v k"

fun jsLess :: "(json \<Rightarrow> int \<Rightarrow> js_throw + bool) \<Rightarrow> json option \<Rightarrow> int \<Rightarrow> js_throw + bool" where
  "jsLess converted None k = Inr False"
| "jsLess converted (Some JNull) k = Inr (0 < k)"
| "jsLess converted (Some (JBool b)) k = Inr ((if b then 1 else 0) < k)"
| "jsLess converted (Some (JNum n)) k = Inr (n < k)"
| "jsLess converted (Some v) k = converted v k"

text \<open>Truthiness of an environment variable: set and not the empty string.\<close>

fun truthyStr :: "string option \<Rightarrow> bool" where
  "truthyStr None = False"
| "truthyStr (Some s) = (s \<noteq> [])"

text \<open>\<open>Number.prototype.toString\<close> on an integer.\<close>

function natToString :: "nat \<Rightarrow> string" where
  "natToString n =
     (if n < 10 then [char_of (48 + n)]
      else natToString (n div 10) @ [char_of (48 + n mod 10)])"
  by pat_completeness auto
termination
  by (relation "measure id") auto

definition numberToString :: "int \<Rightarrow> string" where
  "numberToString i = (if i < 0 then CHR ''-'' # natToString (nat (- i)) else natToString (nat i))"

text \<open>What an \<open>await\<close>ed \<open>fetch\<close> followed by \<open>response.json()\<close> can come to.\<close>

datatype fetched =
    FetchFails
  | Fetched bool "parsed option"

text \<open>
  \<open>FetchFails\<close>: the \<open>fetch\<close> promise rejects. \<open>Fetched ok body\<close>: it resolves with
  \<open>response.ok = ok\<close>, and \<open>response.json()\<close> rejects (\<open>None\<close>) or resolves.
\<close>

section \<open>reCAPTCHA verification (src/lib/recaptcha.ts)\<close>

record RecaptchaVerificationResult =
  success :: "json option"
  score :: "json option"
  errorCodes :: "json option"
  challengeTs :: "json option"
  hostname :: "json option"

text \<open>
  The form fields of the request to the verification service. An \<open>undefined\<close> secret
  is sent as the text \<open>undefined\<close>; \<open>remoteip\<close> is sent when \<open>remoteIp\<close> is truthy.
\<close>

definition verifyParams :: "string \<Rightarrow> string option \<Rightarrow> string option \<Rightarrow> (string \<times> string) list" where
  "verifyParams token secretKey remoteIp =
     [(''secret'', case secretKey of None \<Rightarrow> ''undefined'' | Some k \<Rightarrow> k),
      (''response'', token)] @
     (case remoteIp of
        None \<Rightarrow> []
      | Some a \<Rightarrow> if a \<noteq> [] then [(''remoteip'', a)] else [])"

text \<open>The \<open>try\<close> block of \<open>verifyRecaptcha\<close>; \<open>Inl\<close> is a thrown value.\<close>

definition verifyRecaptchaTry ::
  "((string \<times> string) list \<Rightarrow> fetched) \<Rightarrow> string \<Rightarrow> string option \<Rightarrow> string option
     \<Rightarrow> js_throw + RecaptchaVerificationResult" where
  "verifyRecaptchaTry siteverify token secretKey remoteIp =
     (case siteverify (verifyParams token secretKey remoteIp) of
        FetchFails \<Rightarrow> Inl FetchError
      | Fetched ok None \<Rightarrow> Inl SyntaxError
      | Fetched ok (Some PNull) \<Rightarrow> Inl TypeError
      | Fetched ok (Some (PValue result)) \<Rightarrow>
          Inr \<lparr>success = result ''success'', score = result ''score'',
               errorCodes = result ''error-codes'', challengeTs = result ''challenge_ts'',
               hostname = result ''hostname''\<rparr>)"

text \<open>\<open>verifyRecaptcha\<close>: the \<open>try\<close> block with its \<open>catch\<close>.\<close>

definition verifyRecaptcha ::
  "((string \<times> string) list \<Rightarrow> fetched) \<Rightarrow> string \<Rightarrow> string option \<Rightarrow> string option
     \<Rightarrow> js_throw + RecaptchaVerificationResult" where
  "verifyRecaptcha siteverify token secretKey remoteIp =
     (case verifyRecaptchaTry siteverify token secretKey remoteIp of
        Inr r \<Rightarrow> Inr r
      | Inl error \<Rightarrow>
          Inr \<lparr>success = Some (JBool False), score = None,
               errorCodes = Some (JArr [JStr ''verification_error'']),
               challengeTs = None, hostname = None\<rparr>)"

definition isRecaptchaValid :: "RecaptchaVerificationResult \<Rightarrow> bool" where
  "isRecaptchaValid result =
     (success result = Some (JBool True) \<and>
      (\<not> truthy (errorCodes result) \<or> jsLength (errorCodes result) = Some (JNum 0)))"

section \<open>Contact form endpoint (the handler \<open>POST\<close>, src/SEO_IMPLEMENTATION.md from line 198)\<close>

subsection \<open>Configuration read at start-up\<close>

record env =
  STRAPI_API_TOKEN :: "string option"
  RECAPTCHA_SECRET_KEY :: "string option"
  DEV :: bool
  NODE_ENV :: "string option"

definition IS_DEV :: "env \<Rightarrow> bool" where
  "IS_DEV e = (DEV e \<or> NODE_ENV e = Some ''development'')"

definition REQUIRE_CAPTCHA :: "env \<Rightarrow> bool" where
  "REQUIRE_CAPTCHA e =
     (\<not> IS_DEV e \<or>
      (truthyStr (RECAPTCHA_SECRET_KEY e) \<and> RECAPTCHA_SECRET_KEY e \<noteq> Some ''your_secret_key_here''))"

subsection \<open>The request, the outside world, the response\<close>

datatype 'a reading = Throws | Returns 'a

text \<open>
  What the body of the handler works on. \<open>clientAddress\<close> is a parameter of the handler,
  bound before its body runs, so inside the body it is a value (\<open>None\<close>: \<open>undefined\<close>);
  \<open>POST_call\<close> below is the call with the read that binds it.
  \<open>request.headers.get("x-forwarded-for")\<close> is read inside the \<open>try\<close> (\<open>Returns None\<close>: the
  header is absent). \<open>jsonBody\<close> is the outcome of \<open>await request.json()\<close> (\<open>None\<close>: it
  rejects).
\<close>

record request =
  clientAddress :: "string option"
  xForwardedFor :: "string option reading"
  jsonBody :: "parsed option"

record SanitizedData =
  sName :: string
  sEmail :: string
  sSubject :: string
  sMessage :: string
  sMsgStatus :: string

text \<open>
  The two services the endpoint calls, each as the outcome of the call for what is sent;
  the readings of \<open>Date.now()\<close> a request can take, one inside each rate-limit check
  and one inside each \<open>getResetTimeSeconds\<close>; and the engine's \<open>x > k\<close> and \<open>x < k\<close> for
  \<open>x\<close> a string, an array or an object.
\<close>

record world =
  siteverify :: "(string \<times> string) list \<Rightarrow> fetched"
  strapi :: "SanitizedData \<Rightarrow> fetched"
  ipCheckAt :: int
  ipResetReadAt :: int
  emailCheckAt :: int
  emailResetReadAt :: int
  convertedGreater :: "json \<Rightarrow> int \<Rightarrow> js_throw + bool"
  convertedLess :: "json \<Rightarrow> int \<Rightarrow> js_throw + bool"

datatype effect =
    VerifyCall "(string \<times> string) list"
  | IpRateLimitCheck string
  | EmailRateLimitCheck string
  | StrapiPost SanitizedData

datatype response_body =
    Error string
  | ErrorRetryAfter string int
  | ErrorDetails string parsed
  | Success string "json option"

record response =
  status :: int
  body :: response_body
  retryAfterHeader :: "string option"

definition errorResponse :: "int \<Rightarrow> string \<Rightarrow> response" where
  "errorResponse code msg = \<lparr>status = code, body = Error msg, retryAfterHeader = None\<rparr>"

definition rateLimitResponse :: "string \<Rightarrow> int \<Rightarrow> response" where
  "rateLimitResponse msg resetSeconds =
     \<lparr>status = 429, body = ErrorRetryAfter msg resetSeconds,
      retryAfterHeader = Some (numberToString resetSeconds)\<rparr>"

text \<open>The response of the outer \<open>catch\<close>.\<close>

definition internalError :: response where
  "internalError = errorResponse 500 ''Internal server error''"

subsection \<open>The client address\<close>

text \<open>
  \<open>clientAddress || request.headers.get("x-forwarded-for")?.split(",")[0]?.trim() || "unknown"\<close>
  inside its \<open>try\<close>, whose \<open>catch\<close> gives \<open>"unknown"\<close>.
\<close>

definition forwardedIp :: "request \<Rightarrow> string" where
  "forwardedIp req =
     (case xForwardedFor req of
        Throws \<Rightarrow> ''unknown''
      | Returns None \<Rightarrow> ''unknown''
      | Returns (Some h) \<Rightarrow>
          (let first = trim (takeWhile (\<lambda>c. c \<noteq> CHR '','') h) in
           if first \<noteq> [] then first else ''unknown''))"

definition clientIp :: "request \<Rightarrow> string" where
  "clientIp req =
     (case clientAddress req of
        None \<Rightarrow> forwardedIp req
      | Some a \<Rightarrow> if a \<noteq> [] then a else forwardedIp req)"

subsection \<open>Validation and sanitization\<close>

definition replaceAll :: "char \<Rightarrow> string \<Rightarrow> string \<Rightarrow> string" where
  "replaceAll c r s = concat (map (\<lambda>x. if x = c then r else [x]) s)"

definition sanitizeInput :: "string \<Rightarrow> string" where
  "sanitizeInput input =
     replaceAll (CHR 0x27) ''&#039;''
       (replaceAll (CHR 0x22) ''&quot;''
         (replaceAll (CHR ''>'') ''&gt;''
           (replaceAll (CHR ''<'') ''&lt;''
             (replaceAll (CHR ''&'') ''&amp;'' input))))"

text \<open>\<open>/^[^\s@]+@[^\s@]+\.[^\s@]+$/.test(email)\<close>.\<close>

definition emailChar :: "char \<Rightarrow> bool" where
  "emailChar c = (\<not> isWhiteSpace c \<and> c \<noteq> CHR ''@'')"

definition emailRegexTest :: "string \<Rightarrow> bool" where
  "emailRegexTest email =
     (takeWhile emailChar email \<noteq> [] \<and>
      (case dropWhile emailChar email of
         [] \<Rightarrow> False
       | c # domain \<Rightarrow>
           c = CHR ''@'' \<and> list_all emailChar domain \<and> CHR ''.'' \<in> set (butlast (tl domain))))"

text \<open>\<open>v.trim()\<close> on a truthy value: a \<open>TypeError\<close> unless the value is a string.\<close>

fun trimValue :: "json option \<Rightarrow> js_throw + string" where
  "trimValue (Some (JStr s)) = Inr (trim s)"
| "trimValue v = Inl TypeError"

text \<open>
  The forwarding to Strapi: \<open>fetch\<close>, then \<open>strapiResponse.json()\<close>; a rejected promise
  or a read of \<open>data\<close> on \<open>null\<close> ends in the outer \<open>catch\<close>.
\<close>

definition forward :: "world \<Rightarrow> SanitizedData \<Rightarrow> response" where
  "forward w sanitizedData =
     (case strapi w sanitizedData of
        FetchFails \<Rightarrow> internalError
      | Fetched ok parsedBody \<Rightarrow>
          if \<not> ok then
            \<lparr>status = 500,
             body = ErrorDetails ''Failed to submit message''
                      (case parsedBody of None \<Rightarrow> PValue (\<lambda>p. None) | Some errorData \<Rightarrow> errorData),
             retryAfterHeader = None\<rparr>
          else
            (case parsedBody of
               None \<Rightarrow> internalError
             | Some PNull \<Rightarrow> internalError
             | Some (PValue result) \<Rightarrow>
                 \<lparr>status = 200,
                  body = Success ''Your message has been sent successfully'' (result ''data''),
                  retryAfterHeader = None\<rparr>))"

text \<open>
  The length checks of layer 5, in the order of the source: the message of the first
  check that fails, \<open>None\<close> when all pass, \<open>Inl\<close> when a comparison throws.
\<close>

definition lengthChecks ::
  "world \<Rightarrow> json option \<Rightarrow> json option \<Rightarrow> json option \<Rightarrow> js_throw + string option" where
  "lengthChecks w name subject message =
     (case jsGreater (convertedGreater w) (jsLength name) 100 of
        Inl thrown \<Rightarrow> Inl thrown
      | Inr True \<Rightarrow> Inr (Some ''Name is too long (max 100 characters)'')
      | Inr False \<Rightarrow>
         (case jsGreater (convertedGreater w) (jsLength subject) 200 of
            Inl thrown \<Rightarrow> Inl thrown
          | Inr True \<Rightarrow> Inr (Some ''Subject is too long (max 200 characters)'')
          | Inr False \<Rightarrow>
             (case jsGreater (convertedGreater w) (jsLength message) 2000 of
                Inl thrown \<Rightarrow> Inl thrown
              | Inr True \<Rightarrow> Inr (Some ''Message must be between 10 and 2000 characters'')
              | Inr False \<Rightarrow>
                 (case jsLess (convertedLess w) (jsLength message) 10 of
                    Inl thrown \<Rightarrow> Inl thrown
                  | Inr True \<Rightarrow> Inr (Some ''Message must be between 10 and 2000 characters'')
                  | Inr False \<Rightarrow> Inr None))))"

text \<open>Layer 5 and the forwarding, for the normalised \<open>email\<close> of layer 4.\<close>

definition validateAndForward ::
  "world \<Rightarrow> (string \<Rightarrow> json option) \<Rightarrow> string \<Rightarrow> response \<times> effect list" where
  "validateAndForward w reqBody email =
     (let name = reqBody ''name''; subject = reqBody ''subject''; message = reqBody ''message'' in
      if \<not> truthy name \<or> \<not> truthy subject \<or> \<not> truthy message then
        (errorResponse 400 ''All fields are required'', [])
      else
        (case lengthChecks w name subject message of
           Inl thrown \<Rightarrow> (internalError, [])
         | Inr (Some msg) \<Rightarrow> (errorResponse 400 msg, [])
         | Inr None \<Rightarrow>
            if \<not> emailRegexTest email then
              (errorResponse 400 ''Invalid email format'', [])
            else
              (case trimValue name of
                 Inl e \<Rightarrow> (internalError, [])
               | Inr n \<Rightarrow>
                  (case trimValue subject of
                     Inl e \<Rightarrow> (internalError, [])
                   | Inr s \<Rightarrow>
                      (case trimValue message of
                         Inl e \<Rightarrow> (internalError, [])
                       | Inr m \<Rightarrow>
                          (let sanitizedData =
                             \<lparr>sName = sanitizeInput n, sEmail = trim email,
                              sSubject = sanitizeInput s, sMessage = sanitizeInput m,
                              sMsgStatus = ''pending''\<rparr>
                           in (forward w sanitizedData, [StrapiPost sanitizedData])))))))"

subsection \<open>The layers of the handler\<close>

text \<open>
  \<open>!body.recaptchaToken || typeof body.recaptchaToken !== 'string' ||
  body.recaptchaToken.trim() === ''\<close>.
\<close>

definition tokenMissing :: "json option \<Rightarrow> bool" where
  "tokenMissing t =
     (\<not> truthy t \<or> (case t of Some (JStr token) \<Rightarrow> trim token = [] | _ \<Rightarrow> True))"

text \<open>
  Layer 2. The first component is the response of an early \<open>return\<close>, \<open>None\<close> when the
  handler goes on to layer 3; the second lists the calls made.
\<close>

definition captchaLayer ::
  "env \<Rightarrow> world \<Rightarrow> (string \<Rightarrow> json option) \<Rightarrow> string \<Rightarrow> response option \<times> effect list" where
  "captchaLayer e w reqBody ip =
     (if REQUIRE_CAPTCHA e then
        (if tokenMissing (reqBody ''recaptchaToken'') then
           (Some (errorResponse 400 ''reCAPTCHA verification required''), [])
         else
           (case reqBody ''recaptchaToken'' of
              Some (JStr token) \<Rightarrow>
                (case verifyRecaptcha (siteverify w) token (RECAPTCHA_SECRET_KEY e) (Some ip) of
                   Inl thrown \<Rightarrow>
                     (Some internalError,
                      [VerifyCall (verifyParams token (RECAPTCHA_SECRET_KEY e) (Some ip))])
                 | Inr recaptchaResult \<Rightarrow>
                     (if \<not> isRecaptchaValid recaptchaResult
                      then Some (errorResponse 400 ''reCAPTCHA verification failed'')
                      else None,
                      [VerifyCall (verifyParams token (RECAPTCHA_SECRET_KEY e) (Some ip))]))
            | _ \<Rightarrow> (Some (errorResponse 400 ''reCAPTCHA verification required''), [])))
      else (None, []))"

text \<open>
  Layer 4 and what follows it. \<open>body.email?.toLowerCase().trim()\<close> is \<open>undefined\<close> for
  an \<open>undefined\<close> or \<open>null\<close> email and throws a \<open>TypeError\<close> for any other value that is
  not a string.
\<close>

definition emailLayer ::
  "world \<Rightarrow> rateLimitStore \<Rightarrow> (string \<Rightarrow> json option)
     \<Rightarrow> response \<times> effect list \<times> rateLimitStore" where
  "emailLayer w store reqBody =
     (case reqBody ''email'' of
        None \<Rightarrow> (errorResponse 400 ''Email is required'', [], store)
      | Some JNull \<Rightarrow> (errorResponse 400 ''Email is required'', [], store)
      | Some (JStr raw) \<Rightarrow>
          (let email = trim (toLowerCase raw) in
           if email = [] then (errorResponse 400 ''Email is required'', [], store)
           else
             (case checkEmailRateLimit (emailCheckAt w) store email of
                (emailRateLimit, store') \<Rightarrow>
                  if \<not> allowed emailRateLimit then
                    (rateLimitResponse ''Too many submissions from this email''
                       (getResetTimeSeconds (emailResetReadAt w) (resetAt emailRateLimit)),
                     [EmailRateLimitCheck email], store')
                  else
                    (case validateAndForward w reqBody email of
                       (r, calls) \<Rightarrow> (r, EmailRateLimitCheck email # calls, store'))))
      | Some other \<Rightarrow> (internalError, [], store))"

text \<open>Layer 3 and what follows it.\<close>

definition ipLayer ::
  "world \<Rightarrow> rateLimitStore \<Rightarrow> (string \<Rightarrow> json option) \<Rightarrow> string
     \<Rightarrow> response \<times> effect list \<times> rateLimitStore" where
  "ipLayer w store reqBody ip =
     (case checkIpRateLimit (ipCheckAt w) store ip of
        (ipRateLimit, store') \<Rightarrow>
          if \<not> allowed ipRateLimit then
            (rateLimitResponse ''Too many requests''
               (getResetTimeSeconds (ipResetReadAt w) (resetAt ipRateLimit)),
             [IpRateLimitCheck ip], store')
          else
            (case emailLayer w store' reqBody of
               (r, calls, store'') \<Rightarrow> (r, IpRateLimitCheck ip # calls, store'')))"

text \<open>
  \<open>POST\<close>: the response, the calls made to the verification service, the rate limiter
  and Strapi, in order, and the rate-limit store after the request.
\<close>

definition POST ::
  "env \<Rightarrow> world \<Rightarrow> rateLimitStore \<Rightarrow> request \<Rightarrow> response \<times> effect list \<times> rateLimitStore" where
  "POST e w store req =
     (let ip = clientIp req in
      if \<not> truthyStr (STRAPI_API_TOKEN e) then
        (errorResponse 500 ''Server configuration error'', [], store)
      else
        (case jsonBody req of
           None \<Rightarrow> (internalError, [], store)
         | Some PNull \<Rightarrow> (internalError, [], store)
         | Some (PValue reqBody) \<Rightarrow>
             if truthy (reqBody ''website_url'') \<or> truthy (reqBody ''website'') then
               (errorResponse 400 ''Submission rejected'', [], store)
             else
               (case captchaLayer e w reqBody ip of
                  (Some rejection, calls) \<Rightarrow> (rejection, calls, store)
                | (None, calls) \<Rightarrow>
                    (case ipLayer w store reqBody ip of
                       (r, calls', store') \<Rightarrow> (r, calls @ calls', store')))))"



section \<open>Definitions for the statements\<close>

text \<open>What \<open>sanitizeInput\<close> writes for one character.\<close>

definition escapeChar :: "char \<Rightarrow> string" where
  "escapeChar c =
     (if c = CHR ''&'' then ''&amp;''
      else if c = CHR ''<'' then ''&lt;''
      else if c = CHR ''>'' then ''&gt;''
      else if c = CHR 0x22 then ''&quot;''
      else if c = CHR 0x27 then ''&#039;''
      else [c])"

subsection \<open>Example configurations, services and requests\<close>

definition exProdEnv :: env where
  "exProdEnv = \<lparr>STRAPI_API_TOKEN = Some ''strapi-token'', RECAPTCHA_SECRET_KEY = Some ''6LeIxAcT'',
                 DEV = False, NODE_ENV = Some ''production''\<rparr>"

definition exUnconfiguredEnv :: env where
  "exUnconfiguredEnv = \<lparr>STRAPI_API_TOKEN = None, RECAPTCHA_SECRET_KEY = Some ''6LeIxAcT'',
                         DEV = False, NODE_ENV = Some ''production''\<rparr>"

definition exDevEnv :: env where
  "exDevEnv = \<lparr>STRAPI_API_TOKEN = Some ''strapi-token'', RECAPTCHA_SECRET_KEY = None,
                DEV = True, NODE_ENV = Some ''development''\<rparr>"

definition exHumanVerdict :: "(string \<times> string) list \<Rightarrow> fetched" where
  "exHumanVerdict params = Fetched True (Some (PValue [''success'' \<mapsto> JBool True]))"

definition exStored :: "SanitizedData \<Rightarrow> fetched" where
  "exStored d = Fetched True (Some (PValue [''data'' \<mapsto> JObj [(''id'', JNum 7)]]))"

definition exNotANumber :: "json \<Rightarrow> int \<Rightarrow> js_throw + bool" where
  "exNotANumber v k = Inr False"

definition exWorld :: "int \<Rightarrow> int \<Rightarrow> world" where
  "exWorld checkAt resetReadAt =
     \<lparr>siteverify = exHumanVerdict, strapi = exStored,
      ipCheckAt = checkAt, ipResetReadAt = resetReadAt,
      emailCheckAt = resetReadAt, emailResetReadAt = resetReadAt,
      convertedGreater = exNotANumber, convertedLess = exNotANumber\<rparr>"

definition exMessage :: "string \<Rightarrow> json option" where
  "exMessage = [''name'' \<mapsto> JStr ''Anna'', ''email'' \<mapsto> JStr ''Anna@Example.com'',
                ''subject'' \<mapsto> JStr ''Promo code'',
                ''message'' \<mapsto> JStr ''The code <SAVE10> did not work.'',
                ''recaptchaToken'' \<mapsto> JStr ''03AGdBq2'']"

definition exRequest :: "string option \<Rightarrow> (string \<Rightarrow> json option) \<Rightarrow> request" where
  "exRequest address reqBody =
     \<lparr>clientAddress = address, xForwardedFor = Returns None,
      jsonBody = Some (PValue reqBody)\<rparr>"

definition exUnreachable :: "(string \<times> string) list \<Rightarrow> fetched" where
  "exUnreachable params = FetchFails"

definition exGarbled :: "(string \<times> string) list \<Rightarrow> fetched" where
  "exGarbled params = Fetched True None"

definition exFiveRequests :: rateLimitStore where
  "exFiveRequests =
     snd (checkRepeatedly Map.empty ''ip:203.0.113.9'' MAX_REQUESTS_PER_IP
            [0, 60000, 120000, 180000, 240000])"

section \<open>The rate limiter's windows\<close>

lemma checkRateLimit_opens:
  assumes "case store (trim (toLowerCase ident)) of
             None \<Rightarrow> True | Some e \<Rightarrow> now - firstRequestAt e > WINDOW_MS"
  shows "checkRateLimit now store ident maxRequests =
           (\<lparr>allowed = True, remaining = maxRequests - 1, resetAt = now + WINDOW_MS\<rparr>,
            store(trim (toLowerCase ident) \<mapsto> \<lparr>count = 1, firstRequestAt = now\<rparr>))"
  using assms by (cases "store (trim (toLowerCase ident))") (simp_all add: checkRateLimit_def Let_def)

lemma checkRateLimit_active:
  assumes "store (trim (toLowerCase ident)) = Some \<lparr>count = c, firstRequestAt = t0\<rparr>"
    and "now - t0 \<le> WINDOW_MS"
  shows "checkRateLimit now store ident maxRequests =
           (if maxRequests \<le> c
            then (\<lparr>allowed = False, remaining = 0, resetAt = t0 + WINDOW_MS\<rparr>, store)
            else (\<lparr>allowed = True, remaining = maxRequests - (c + 1), resetAt = t0 + WINDOW_MS\<rparr>,
                  store(trim (toLowerCase ident) \<mapsto> \<lparr>count = c + 1, firstRequestAt = t0\<rparr>)))"
  using assms by (simp add: checkRateLimit_def Let_def)

lemma checkRepeatedly_Cons_fst:
  "fst (checkRepeatedly store ident maxRequests (t # ts)) =
     fst (checkRateLimit t store ident maxRequests) #
     fst (checkRepeatedly (snd (checkRateLimit t store ident maxRequests)) ident maxRequests ts)"
  by (simp add: case_prod_unfold)

lemma checkRepeatedly_Cons_snd:
  "snd (checkRepeatedly store ident maxRequests (t # ts)) =
     snd (checkRepeatedly (snd (checkRateLimit t store ident maxRequests)) ident maxRequests ts)"
  by (simp add: case_prod_unfold)

declare checkRepeatedly.simps(2) [simp del]

lemma checkRepeatedly_length:
  "length (fst (checkRepeatedly store ident maxRequests ts)) = length ts"
  by (induction ts arbitrary: store) (simp_all add: checkRepeatedly_Cons_fst)

lemma checkRepeatedly_active_nth:
  assumes "store (trim (toLowerCase ident)) = Some \<lparr>count = c, firstRequestAt = t0\<rparr>"
    and "\<forall>t\<in>set ts. t - t0 \<le> WINDOW_MS"
    and "i < length ts"
  shows "fst (checkRepeatedly store ident maxRequests ts) ! i =
           (if maxRequests \<le> c + int i
            then \<lparr>allowed = False, remaining = 0, resetAt = t0 + WINDOW_MS\<rparr>
            else \<lparr>allowed = True, remaining = maxRequests - (c + int i + 1),
                   resetAt = t0 + WINDOW_MS\<rparr>)"
  using assms
proof (induction ts arbitrary: store c i)
  case Nil
  then show ?case by simp
next
  case (Cons t ts)
  have act: "t - t0 \<le> WINDOW_MS" using Cons.prems(2) by simp
  note step = checkRateLimit_active [where store = store and ident = ident
      and maxRequests = maxRequests, OF Cons.prems(1) act]
  show ?case
  proof (cases i)
    case 0
    then show ?thesis using step by (simp add: checkRepeatedly_Cons_fst)
  next
    case (Suc j)
    then have j: "j < length ts" using Cons.prems(3) by simp
    have rest: "\<forall>t\<in>set ts. t - t0 \<le> WINDOW_MS" using Cons.prems(2) by simp
    show ?thesis
    proof (cases "maxRequests \<le> c")
      case True
      then show ?thesis
        using step Suc Cons.IH [where store = store, OF Cons.prems(1) rest j]
        by (simp add: checkRepeatedly_Cons_fst)
    next
      case False
      let ?store' = "store(trim (toLowerCase ident) \<mapsto> \<lparr>count = c + 1, firstRequestAt = t0\<rparr>)"
      have "?store' (trim (toLowerCase ident)) = Some \<lparr>count = c + 1, firstRequestAt = t0\<rparr>"
        by simp
      then have ih: "fst (checkRepeatedly ?store' ident maxRequests ts) ! j =
           (if maxRequests \<le> (c + 1) + int j
            then \<lparr>allowed = False, remaining = 0, resetAt = t0 + WINDOW_MS\<rparr>
            else \<lparr>allowed = True, remaining = maxRequests - ((c + 1) + int j + 1),
                   resetAt = t0 + WINDOW_MS\<rparr>)"
        using rest j by (rule Cons.IH [where store = ?store'])
      have "fst (checkRepeatedly store ident maxRequests (t # ts)) ! i =
          fst (checkRepeatedly ?store' ident maxRequests ts) ! j"
        using step False Suc by (simp add: checkRepeatedly_Cons_fst)
      also note ih
      finally show ?thesis using Suc by (simp add: algebra_simps)
    qed
  qed
qed

lemma checkRepeatedly_active_store:
  assumes "store (trim (toLowerCase ident)) = Some \<lparr>count = c, firstRequestAt = t0\<rparr>"
    and "\<forall>t\<in>set ts. t - t0 \<le> WINDOW_MS"
    and "c + int (length ts) \<le> maxRequests"
  shows "snd (checkRepeatedly store ident maxRequests ts) =
           store(trim (toLowerCase ident) \<mapsto> \<lparr>count = c + int (length ts), firstRequestAt = t0\<rparr>)"
  using assms
proof (induction ts arbitrary: store c)
  case Nil
  then show ?case by (simp add: fun_upd_idem)
next
  case (Cons t ts)
  have act: "t - t0 \<le> WINDOW_MS" using Cons.prems(2) by simp
  have rest: "\<forall>t\<in>set ts. t - t0 \<le> WINDOW_MS" using Cons.prems(2) by simp
  have lt: "\<not> maxRequests \<le> c" using Cons.prems(3) by simp
  note step = checkRateLimit_active [where store = store and ident = ident
      and maxRequests = maxRequests, OF Cons.prems(1) act]
  let ?store' = "store(trim (toLowerCase ident) \<mapsto> \<lparr>count = c + 1, firstRequestAt = t0\<rparr>)"
  have s': "?store' (trim (toLowerCase ident)) = Some \<lparr>count = c + 1, firstRequestAt = t0\<rparr>"
    by simp
  have b: "c + 1 + int (length ts) \<le> maxRequests" using Cons.prems(3) by simp
  have ih: "snd (checkRepeatedly ?store' ident maxRequests ts) =
      ?store'(trim (toLowerCase ident) \<mapsto> \<lparr>count = (c + 1) + int (length ts), firstRequestAt = t0\<rparr>)"
    using s' rest b by (rule Cons.IH [where store = ?store'])
  have "snd (checkRepeatedly store ident maxRequests (t # ts)) =
      snd (checkRepeatedly ?store' ident maxRequests ts)"
    using step lt by (simp add: checkRepeatedly_Cons_snd)
  also note ih
  finally show ?case by (simp add: algebra_simps)
qed

text \<open>
  C1. A check that opens a window at \<open>t0\<close> (no entry for the identifier, or an expired
  one) and \<open>maxRequests\<close> further checks of the same identifier, none later than
  \<open>t0 + WINDOW_MS\<close>: the first \<open>maxRequests\<close> of these \<open>maxRequests + 1\<close> checks are
  allowed, the last one is denied, and its \<open>resetAt\<close> is \<open>t0 + WINDOW_MS\<close>. The ceiling is
  positive: the module passes 5 and 3.
\<close>

theorem checkRateLimit_window_quota:
  assumes "1 \<le> maxRequests"
    and "case store (trim (toLowerCase ident)) of
           None \<Rightarrow> True | Some e \<Rightarrow> t0 - firstRequestAt e > WINDOW_MS"
    and "length later = nat maxRequests"
    and "\<forall>t\<in>set later. t - t0 \<le> WINDOW_MS"
  shows "map allowed (fst (checkRepeatedly store ident maxRequests (t0 # later))) =
           replicate (nat maxRequests) True @ [False] \<and>
         resetAt (fst (checkRepeatedly store ident maxRequests (t0 # later)) ! nat maxRequests) =
           t0 + WINDOW_MS"
proof -
  let ?key = "trim (toLowerCase ident)"
  let ?store' = "store(?key \<mapsto> \<lparr>count = 1, firstRequestAt = t0\<rparr>)"
  let ?r0 = "\<lparr>allowed = True, remaining = maxRequests - 1, resetAt = t0 + WINDOW_MS\<rparr>"
  let ?rs' = "fst (checkRepeatedly ?store' ident maxRequests later)"
  have first: "checkRateLimit t0 store ident maxRequests = (?r0, ?store')"
    using assms(2) by (rule checkRateLimit_opens [where store = store and ident = ident])
  have s': "?store' ?key = Some \<lparr>count = 1, firstRequestAt = t0\<rparr>" by simp
  have rs: "fst (checkRepeatedly store ident maxRequests (t0 # later)) = ?r0 # ?rs'"
    using first by (simp add: checkRepeatedly_Cons_fst)
  have len: "length ?rs' = nat maxRequests"
    using assms(3) by (simp add: checkRepeatedly_length)
  have nth: "?rs' ! i = (if maxRequests \<le> 1 + int i
            then \<lparr>allowed = False, remaining = 0, resetAt = t0 + WINDOW_MS\<rparr>
            else \<lparr>allowed = True, remaining = maxRequests - (1 + int i + 1),
                   resetAt = t0 + WINDOW_MS\<rparr>)" if "i < nat maxRequests" for i
    using checkRepeatedly_active_nth [where store = ?store' and ident = ident
        and maxRequests = maxRequests and i = i, OF s' assms(4)] that assms(3) by simp
  obtain k where k: "nat maxRequests = Suc k" using assms(1) by (cases "nat maxRequests") auto
  then have "k < nat maxRequests" and "maxRequests \<le> 1 + int k" by auto
  then have last: "?rs' ! k = \<lparr>allowed = False, remaining = 0, resetAt = t0 + WINDOW_MS\<rparr>"
    using nth [of k] by simp
  have flags: "map allowed (?r0 # ?rs') = replicate (nat maxRequests) True @ [False]"
  proof (rule nth_equalityI)
    show "length (map allowed (?r0 # ?rs')) = length (replicate (nat maxRequests) True @ [False])"
      using len by simp
  next
    fix i assume "i < length (map allowed (?r0 # ?rs'))"
    then have i: "i \<le> nat maxRequests" using len by simp
    show "map allowed (?r0 # ?rs') ! i = (replicate (nat maxRequests) True @ [False]) ! i"
    proof (cases i)
      case 0
      then show ?thesis using k by (simp add: nth_append)
    next
      case (Suc j)
      then have j: "j < nat maxRequests" using i by simp
      show ?thesis
      proof (cases "j = k")
        case True
        then show ?thesis using Suc last len k by (simp add: nth_append)
      next
        case False
        then have "\<not> maxRequests \<le> 1 + int j" and "Suc j < nat maxRequests"
          using j k by auto
        then show ?thesis using Suc nth [OF j] len j by (simp add: nth_append)
      qed
    qed
  qed
  show ?thesis
    unfolding rs using flags last k by simp
qed

text \<open>Ceiling 2: the third check, one hour after the first, is denied.\<close>

theorem checkRateLimit_window_quota_witness:
  "map allowed (fst (checkRepeatedly Map.empty ''IP:10.0.0.7 '' 2 [1000, 2000, 3601000])) =
     [True, True, False] \<and>
   resetAt (fst (checkRepeatedly Map.empty ''IP:10.0.0.7 '' 2 [1000, 2000, 3601000]) ! 2) =
     3601000"
proof -
  have h1: "(1::int) \<le> 2" by simp
  have h2: "case (Map.empty :: rateLimitStore) (trim (toLowerCase ''IP:10.0.0.7 '')) of
              None \<Rightarrow> True | Some e \<Rightarrow> 1000 - firstRequestAt e > WINDOW_MS"
    by simp
  have h3: "length [2000, 3601000 :: int] = nat 2" by simp
  have h4: "\<forall>t\<in>set [2000, 3601000 :: int]. t - 1000 \<le> WINDOW_MS"
    by (simp add: WINDOW_MS_def)
  show ?thesis
    using checkRateLimit_window_quota [where store = Map.empty and ident = "''IP:10.0.0.7 ''",
        OF h1 h2 h3 h4]
    by (simp add: WINDOW_MS_def numeral_2_eq_2)
qed

text \<open>
  C2. When more than \<open>WINDOW_MS\<close> has passed since the entry's first request, the check
  is allowed and stores \<open>count = 1\<close> with \<open>firstRequestAt = now\<close>, whatever the old count
  was; the new window ends at \<open>now + WINDOW_MS\<close>.
\<close>

theorem checkRateLimit_expired_window_resets:
  assumes "store (trim (toLowerCase ident)) = Some entry"
    and "now - firstRequestAt entry > WINDOW_MS"
  shows "allowed (fst (checkRateLimit now store ident maxRequests)) \<and>
         snd (checkRateLimit now store ident maxRequests) (trim (toLowerCase ident)) =
           Some \<lparr>count = 1, firstRequestAt = now\<rparr> \<and>
         resetAt (fst (checkRateLimit now store ident maxRequests)) = now + WINDOW_MS"
  using assms by (simp add: checkRateLimit_def Let_def)

text \<open>An entry at its ceiling, one millisecond past the hour.\<close>

theorem checkRateLimit_expired_window_resets_witness:
  "allowed (fst (checkRateLimit 3600001
       [''ip:a'' \<mapsto> \<lparr>count = 5, firstRequestAt = 0\<rparr>] ''ip:a'' 5)) \<and>
   snd (checkRateLimit 3600001
       [''ip:a'' \<mapsto> \<lparr>count = 5, firstRequestAt = 0\<rparr>] ''ip:a'' 5) ''ip:a'' =
     Some \<lparr>count = 1, firstRequestAt = 3600001\<rparr>"
proof -
  have k: "trim (toLowerCase ''ip:a'') = ''ip:a''"
    by (simp add: trim_def toLowerCase_def toLowerChar_def isWhiteSpace_def)
  have h1: "[''ip:a'' \<mapsto> \<lparr>count = 5, firstRequestAt = 0\<rparr>] (trim (toLowerCase ''ip:a'')) =
      Some \<lparr>count = 5, firstRequestAt = 0\<rparr>"
    unfolding k by simp
  have h2: "3600001 - firstRequestAt \<lparr>count = 5, firstRequestAt = 0\<rparr> > WINDOW_MS"
    by (simp add: WINDOW_MS_def)
  show ?thesis
    using checkRateLimit_expired_window_resets [where store = "[''ip:a'' \<mapsto> \<lparr>count = 5, firstRequestAt = 0\<rparr>]"
        and ident = "''ip:a''" and maxRequests = 5, OF h1 h2]
    unfolding k by simp
qed

lemma dom_cleanupExpiredEntries:
  "dom (cleanupExpiredEntries now store) =
     {k \<in> dom store. \<exists>entry. store k = Some entry \<and> now - firstRequestAt entry \<le> WINDOW_MS}"
proof (rule set_eqI)
  fix k
  show "k \<in> dom (cleanupExpiredEntries now store) \<longleftrightarrow>
        k \<in> {k \<in> dom store. \<exists>entry. store k = Some entry \<and> now - firstRequestAt entry \<le> WINDOW_MS}"
    by (cases "store k") (simp_all add: cleanupExpiredEntries_def dom_def)
qed

text \<open>
  C7, amended. The sweep deletes exactly the entries with
  \<open>now - firstRequestAt > WINDOW_MS\<close> and leaves every other entry as it is; the sweep
  period (15 minutes) is shorter than the window (one hour).
\<close>

theorem cleanupExpiredEntries_removes_expired_only:
  "cleanupExpiredEntries now store key =
     (case store key of
        None \<Rightarrow> None
      | Some entry \<Rightarrow> if now - firstRequestAt entry > WINDOW_MS then None else Some entry) \<and>
   (\<forall>entry. store key = Some entry \<and> now - firstRequestAt entry \<le> WINDOW_MS
        \<longrightarrow> cleanupExpiredEntries now store key = Some entry) \<and>
   dom (cleanupExpiredEntries now store) =
     {k \<in> dom store. \<exists>entry. store k = Some entry \<and> now - firstRequestAt entry \<le> WINDOW_MS} \<and>
   cleanupIntervalMs < WINDOW_MS"
proof -
  have "cleanupIntervalMs < WINDOW_MS"
    by (simp add: cleanupIntervalMs_def WINDOW_MS_def)
  moreover have "cleanupExpiredEntries now store key =
     (case store key of
        None \<Rightarrow> None
      | Some entry \<Rightarrow> if now - firstRequestAt entry > WINDOW_MS then None else Some entry)"
    by (simp add: cleanupExpiredEntries_def)
  moreover have "\<forall>entry. store key = Some entry \<and> now - firstRequestAt entry \<le> WINDOW_MS
        \<longrightarrow> cleanupExpiredEntries now store key = Some entry"
    by (simp add: cleanupExpiredEntries_def)
  ultimately show ?thesis using dom_cleanupExpiredEntries [of now store] by simp
qed

text \<open>C7 as stated fails: the sweep period is not at least the window duration.\<close>

theorem cleanup_interval_not_coarser: "\<not> (WINDOW_MS \<le> cleanupIntervalMs)"
  by (simp add: cleanupIntervalMs_def WINDOW_MS_def)

text \<open>A sweep over one expired and one active entry.\<close>

theorem cleanupExpiredEntries_removes_expired_only_witness:
  "cleanupExpiredEntries 4000000
      [''ip:old'' \<mapsto> \<lparr>count = 2, firstRequestAt = 0\<rparr>,
       ''ip:new'' \<mapsto> \<lparr>count = 5, firstRequestAt = 400000\<rparr>] ''ip:old'' = None \<and>
   cleanupExpiredEntries 4000000
      [''ip:old'' \<mapsto> \<lparr>count = 2, firstRequestAt = 0\<rparr>,
       ''ip:new'' \<mapsto> \<lparr>count = 5, firstRequestAt = 400000\<rparr>] ''ip:new'' =
     Some \<lparr>count = 5, firstRequestAt = 400000\<rparr>"
proof -
  let ?s = "[''ip:old'' \<mapsto> \<lparr>count = 2, firstRequestAt = 0\<rparr>,
       ''ip:new'' \<mapsto> \<lparr>count = 5, firstRequestAt = 400000\<rparr>]"
  show ?thesis
    using cleanupExpiredEntries_removes_expired_only [of 4000000 ?s "''ip:old''"]
      cleanupExpiredEntries_removes_expired_only [of 4000000 ?s "''ip:new''"]
    by (simp add: WINDOW_MS_def)
qed

section \<open>reCAPTCHA verification and sanitization\<close>

text \<open>
  C5. \<open>verifyRecaptcha\<close> always returns a result, whatever the token, the secret key and
  the remote address are and whatever the service does; when the \<open>fetch\<close> fails or the
  response body does not parse, the result is
  \<open>{success: false, errorCodes: ["verification_error"]}\<close>.
\<close>

theorem verifyRecaptcha_never_throws:
  "(\<exists>r. verifyRecaptcha sv token secretKey remoteIp = Inr r) \<and>
   (sv (verifyParams token secretKey remoteIp) = FetchFails \<longrightarrow>
      verifyRecaptcha sv token secretKey remoteIp =
        Inr \<lparr>success = Some (JBool False), score = None,
             errorCodes = Some (JArr [JStr ''verification_error'']),
             challengeTs = None, hostname = None\<rparr>) \<and>
   (\<forall>ok. sv (verifyParams token secretKey remoteIp) = Fetched ok None \<longrightarrow>
      verifyRecaptcha sv token secretKey remoteIp =
        Inr \<lparr>success = Some (JBool False), score = None,
             errorCodes = Some (JArr [JStr ''verification_error'']),
             challengeTs = None, hostname = None\<rparr>)"
  by (simp add: verifyRecaptcha_def verifyRecaptchaTry_def
      split: fetched.splits option.splits parsed.splits sum.splits)

text \<open>A service that cannot be reached, and one that answers with a body that is not JSON.\<close>

theorem verifyRecaptcha_never_throws_witness:
  "verifyRecaptcha exUnreachable ''03AGdBq2'' (Some ''6LeIxAcT'') (Some ''198.51.100.4'') =
     Inr \<lparr>success = Some (JBool False), score = None,
          errorCodes = Some (JArr [JStr ''verification_error'']),
          challengeTs = None, hostname = None\<rparr> \<and>
   verifyRecaptcha exGarbled ''03AGdBq2'' None None =
     Inr \<lparr>success = Some (JBool False), score = None,
          errorCodes = Some (JArr [JStr ''verification_error'']),
          challengeTs = None, hostname = None\<rparr>"
  using verifyRecaptcha_never_throws [of exUnreachable "''03AGdBq2''" "Some ''6LeIxAcT''" "Some ''198.51.100.4''"]
    verifyRecaptcha_never_throws [of exGarbled "''03AGdBq2''" None None]
  by (auto simp: exUnreachable_def exGarbled_def)

text \<open>
  C6. For a result whose \<open>errorCodes\<close> is absent (\<open>undefined\<close> or \<open>null\<close>) or an array,
  as the interface \<open>RecaptchaVerificationResult\<close> types it, \<open>isRecaptchaValid\<close> holds
  exactly when \<open>success\<close> is \<open>true\<close> and \<open>errorCodes\<close> is absent or the empty array; a
  result with a non-empty array of error codes is invalid, whatever \<open>success\<close> is.
\<close>

theorem isRecaptchaValid_iff:
  assumes "errorCodes result = None \<or> errorCodes result = Some JNull \<or>
           (\<exists>codes. errorCodes result = Some (JArr codes))"
  shows "(isRecaptchaValid result \<longleftrightarrow>
            success result = Some (JBool True) \<and>
            (errorCodes result = None \<or> errorCodes result = Some JNull \<or>
             errorCodes result = Some (JArr []))) \<and>
         (\<forall>c cs. errorCodes result = Some (JArr (c # cs)) \<longrightarrow> \<not> isRecaptchaValid result)"
  using assms by (auto simp: isRecaptchaValid_def)

text \<open>\<open>success: true\<close> with an error code, with no codes, with no list; \<open>success: false\<close>.\<close>

theorem isRecaptchaValid_iff_witness:
  "\<not> isRecaptchaValid \<lparr>success = Some (JBool True), score = None,
       errorCodes = Some (JArr [JStr ''timeout-or-duplicate'']),
       challengeTs = None, hostname = None\<rparr> \<and>
   isRecaptchaValid \<lparr>success = Some (JBool True), score = None,
       errorCodes = Some (JArr []), challengeTs = None, hostname = None\<rparr> \<and>
   isRecaptchaValid \<lparr>success = Some (JBool True), score = None,
       errorCodes = None, challengeTs = None, hostname = None\<rparr> \<and>
   \<not> isRecaptchaValid \<lparr>success = Some (JBool False), score = None,
       errorCodes = None, challengeTs = None, hostname = None\<rparr>"
  using isRecaptchaValid_iff [of "\<lparr>success = Some (JBool True), score = None,
       errorCodes = Some (JArr [JStr ''timeout-or-duplicate'']),
       challengeTs = None, hostname = None\<rparr>"]
    isRecaptchaValid_iff [of "\<lparr>success = Some (JBool True), score = None,
       errorCodes = Some (JArr []), challengeTs = None, hostname = None\<rparr>"]
    isRecaptchaValid_iff [of "\<lparr>success = Some (JBool True), score = None,
       errorCodes = None, challengeTs = None, hostname = None\<rparr>"]
    isRecaptchaValid_iff [of "\<lparr>success = Some (JBool False), score = None,
       errorCodes = None, challengeTs = None, hostname = None\<rparr>"]
  by simp

subsection \<open>The five replacements as one pass\<close>

lemma replaceAll_Nil: "replaceAll c r [] = []"
  by (simp add: replaceAll_def)

lemma replaceAll_Cons: "replaceAll c r (x # xs) = (if x = c then r else [x]) @ replaceAll c r xs"
  by (simp add: replaceAll_def)

lemma replaceAll_append: "replaceAll c r (xs @ ys) = replaceAll c r xs @ replaceAll c r ys"
  by (simp add: replaceAll_def)

lemma sanitizeInput_Nil: "sanitizeInput [] = []"
  by (simp add: sanitizeInput_def replaceAll_Nil)

lemma sanitizeInput_Cons: "sanitizeInput (c # s) = escapeChar c @ sanitizeInput s"
  by (simp add: sanitizeInput_def escapeChar_def replaceAll_Cons replaceAll_append replaceAll_Nil)

lemma escapeChar_prefix_free:
  "escapeChar a @ u = escapeChar b @ v \<Longrightarrow> a = b \<and> u = v"
  by (auto simp: escapeChar_def split: if_splits)

lemma escapeChar_not_Nil: "escapeChar a \<noteq> []"
  by (simp add: escapeChar_def)

text \<open>
  C9. \<open>sanitizeInput\<close> is injective: two strings with the same encoding are the same
  string.
\<close>

theorem sanitizeInput_injective:
  "sanitizeInput x = sanitizeInput y \<Longrightarrow> x = y"
proof (induction x arbitrary: y)
  case Nil
  then show ?case
    by (cases y) (simp_all add: sanitizeInput_Nil sanitizeInput_Cons escapeChar_not_Nil)
next
  case (Cons a x)
  show ?case
  proof (cases y)
    case Nil
    with Cons.prems show ?thesis
      by (simp add: sanitizeInput_Nil sanitizeInput_Cons escapeChar_not_Nil)
  next
    case (Cons b y')
    with Cons.prems have "escapeChar a @ sanitizeInput x = escapeChar b @ sanitizeInput y'"
      by (simp add: sanitizeInput_Cons)
    then have "a = b" and "sanitizeInput x = sanitizeInput y'"
      using escapeChar_prefix_free by blast+
    then show ?thesis using Cons.IH Cons by simp
  qed
qed

text \<open>A string and its own encoding are encoded differently.\<close>

theorem sanitizeInput_injective_witness:
  "sanitizeInput ''<b>'' \<noteq> sanitizeInput ''&lt;b&gt;'' \<and> sanitizeInput ''<b>'' = ''&lt;b&gt;''"
proof -
  have "sanitizeInput ''<b>'' \<noteq> sanitizeInput ''&lt;b&gt;''"
    using sanitizeInput_injective [of "''<b>''" "''&lt;b&gt;''"] by auto
  moreover have "sanitizeInput ''<b>'' = ''&lt;b&gt;''"
    by (simp add: sanitizeInput_def replaceAll_def)
  ultimately show ?thesis by simp
qed

section \<open>The layers of the endpoint\<close>

lemma POST_unconfigured:
  "\<not> truthyStr (STRAPI_API_TOKEN e) \<Longrightarrow>
     POST e w store req = (errorResponse 500 ''Server configuration error'', [], store)"
  by (simp add: POST_def)

lemma POST_honeypot:
  assumes "truthyStr (STRAPI_API_TOKEN e)"
    and "jsonBody req = Some (PValue reqBody)"
    and "truthy (reqBody ''website_url'') \<or> truthy (reqBody ''website'')"
  shows "POST e w store req = (errorResponse 400 ''Submission rejected'', [], store)"
  using assms by (simp add: POST_def)

lemma POST_captcha_rejects:
  assumes "truthyStr (STRAPI_API_TOKEN e)"
    and "jsonBody req = Some (PValue reqBody)"
    and "\<not> truthy (reqBody ''website_url'')" and "\<not> truthy (reqBody ''website'')"
    and "captchaLayer e w reqBody (clientIp req) = (Some rejection, calls)"
  shows "POST e w store req = (rejection, calls, store)"
  using assms by (simp add: POST_def)

lemma POST_reaches_ipLayer:
  assumes "truthyStr (STRAPI_API_TOKEN e)"
    and "jsonBody req = Some (PValue reqBody)"
    and "\<not> truthy (reqBody ''website_url'')" and "\<not> truthy (reqBody ''website'')"
    and "captchaLayer e w reqBody (clientIp req) = (None, calls)"
  shows "POST e w store req =
           (fst (ipLayer w store reqBody (clientIp req)),
            calls @ fst (snd (ipLayer w store reqBody (clientIp req))),
            snd (snd (ipLayer w store reqBody (clientIp req))))"
  using assms by (simp add: POST_def Let_def case_prod_unfold)

lemma captchaLayer_skipped:
  "\<not> REQUIRE_CAPTCHA e \<Longrightarrow> captchaLayer e w reqBody ip = (None, [])"
  by (simp add: captchaLayer_def)

lemma captchaLayer_token_missing:
  "REQUIRE_CAPTCHA e \<Longrightarrow> tokenMissing (reqBody ''recaptchaToken'') \<Longrightarrow>
     captchaLayer e w reqBody ip = (Some (errorResponse 400 ''reCAPTCHA verification required''), [])"
  by (simp add: captchaLayer_def)

lemma verifyRecaptcha_Inr:
  "\<exists>r. verifyRecaptcha sv token secretKey remoteIp = Inr r"
  by (simp add: verifyRecaptcha_def split: sum.splits)

lemma captchaLayer_verifies:
  assumes "REQUIRE_CAPTCHA e" and "reqBody ''recaptchaToken'' = Some (JStr token)"
    and "trim token \<noteq> []"
    and "verifyRecaptcha (siteverify w) token (RECAPTCHA_SECRET_KEY e) (Some ip) = Inr r"
  shows "captchaLayer e w reqBody ip =
           (if isRecaptchaValid r then None
            else Some (errorResponse 400 ''reCAPTCHA verification failed''),
            [VerifyCall (verifyParams token (RECAPTCHA_SECRET_KEY e) (Some ip))])"
proof -
  have "token \<noteq> []" using assms(3) by (auto simp: trim_def)
  then have "\<not> tokenMissing (reqBody ''recaptchaToken'')"
    using assms(2,3) by (simp add: tokenMissing_def)
  then show ?thesis using assms by (simp add: captchaLayer_def)
qed






lemma checkRateLimit_denied:
  assumes "store (trim (toLowerCase ident)) = Some entry"
    and "now - firstRequestAt entry \<le> WINDOW_MS"
    and "maxRequests \<le> count entry"
  shows "checkRateLimit now store ident maxRequests =
           (\<lparr>allowed = False, remaining = 0, resetAt = firstRequestAt entry + WINDOW_MS\<rparr>, store)"
  using assms by (simp add: checkRateLimit_def Let_def)

lemma ipLayer_denied:
  assumes "store (trim (toLowerCase (''ip:'' @ ip))) = Some entry"
    and "ipCheckAt w - firstRequestAt entry \<le> WINDOW_MS"
    and "MAX_REQUESTS_PER_IP \<le> count entry"
  shows "ipLayer w store reqBody ip =
           (rateLimitResponse ''Too many requests''
              (getResetTimeSeconds (ipResetReadAt w) (firstRequestAt entry + WINDOW_MS)),
            [IpRateLimitCheck ip], store)"
  using checkRateLimit_denied [where store = store and ident = "''ip:'' @ ip", OF assms]
  by (simp add: ipLayer_def checkIpRateLimit_def)

lemma getResetTimeSeconds_positive:
  "0 < getResetTimeSeconds now r \<longleftrightarrow> now < r"
proof -
  have "(- (r - now)) div 1000 < 0 \<longleftrightarrow> - (r - now) < 0"
    by (rule pos_imp_zdiv_neg_iff) simp
  then show ?thesis by (simp add: getResetTimeSeconds_def)
qed


section \<open>Honeypot and CAPTCHA\<close>

text \<open>
  C3, amended. A submission with a truthy \<open>website_url\<close> or \<open>website\<close> makes no call at
  all (no verification, no rate-limit check, no post to Strapi) and leaves the rate-limit
  store as it was; the response is 400 \<open>Submission rejected\<close> when \<open>STRAPI_API_TOKEN\<close> is
  configured, and the 500 of the configuration check, which comes first, when it is not.
\<close>

theorem honeypot_rejects_before_any_check:
  assumes "jsonBody req = Some (PValue reqBody)"
    and "truthy (reqBody ''website_url'') \<or> truthy (reqBody ''website'')"
  shows "snd (POST e w store req) = ([], store) \<and>
         fst (POST e w store req) =
           (if truthyStr (STRAPI_API_TOKEN e)
            then \<lparr>status = 400, body = Error ''Submission rejected'', retryAfterHeader = None\<rparr>
            else \<lparr>status = 500, body = Error ''Server configuration error'',
                   retryAfterHeader = None\<rparr>)"
proof (cases "truthyStr (STRAPI_API_TOKEN e)")
  case True
  then show ?thesis
    using POST_honeypot [OF True assms, of w store] by (simp add: errorResponse_def)
next
  case False
  then show ?thesis
    using POST_unconfigured [OF False, of w store req] by (simp add: errorResponse_def)
qed

text \<open>C3 as stated fails: without \<open>STRAPI_API_TOKEN\<close> a tripped honeypot gets 500.\<close>

theorem honeypot_unconfigured_gets_500:
  "truthy ((exMessage(''website_url'' \<mapsto> JStr ''http://spam.example'')) ''website_url'') \<and>
   fst (POST exUnconfiguredEnv (exWorld 0 0) Map.empty
          (exRequest (Some ''203.0.113.9'')
             (exMessage(''website_url'' \<mapsto> JStr ''http://spam.example'')))) =
     \<lparr>status = 500, body = Error ''Server configuration error'', retryAfterHeader = None\<rparr>"
  by (simp add: POST_def exUnconfiguredEnv_def errorResponse_def)

text \<open>A configured server and a filled \<open>website\<close> field.\<close>

theorem honeypot_rejects_before_any_check_witness:
  "POST exProdEnv (exWorld 0 0) Map.empty
      (exRequest (Some ''203.0.113.9'') (exMessage(''website'' \<mapsto> JStr ''x''))) =
     (\<lparr>status = 400, body = Error ''Submission rejected'', retryAfterHeader = None\<rparr>,
      [], Map.empty)"
proof -
  have h1: "jsonBody (exRequest (Some ''203.0.113.9'') (exMessage(''website'' \<mapsto> JStr ''x''))) =
      Some (PValue (exMessage(''website'' \<mapsto> JStr ''x'')))"
    by (simp add: exRequest_def)
  have h2: "truthy ((exMessage(''website'' \<mapsto> JStr ''x'')) ''website_url'') \<or>
      truthy ((exMessage(''website'' \<mapsto> JStr ''x'')) ''website'')"
    by simp
  show ?thesis
    using honeypot_rejects_before_any_check [OF h1 h2, of exProdEnv "exWorld 0 0" Map.empty]
    by (simp add: exProdEnv_def prod_eq_iff)
qed

lemma REQUIRE_CAPTCHA_iff:
  "\<not> REQUIRE_CAPTCHA e \<longleftrightarrow>
     IS_DEV e \<and>
     (RECAPTCHA_SECRET_KEY e = None \<or> RECAPTCHA_SECRET_KEY e = Some [] \<or>
      RECAPTCHA_SECRET_KEY e = Some ''your_secret_key_here'')"
  by (cases "RECAPTCHA_SECRET_KEY e") (auto simp: REQUIRE_CAPTCHA_def)

lemma POST_no_verify_when_token_missing:
  assumes "jsonBody req = Some (PValue reqBody)"
    and "REQUIRE_CAPTCHA e" and "tokenMissing (reqBody ''recaptchaToken'')"
  shows "fst (snd (POST e w store req)) = [] \<and>
         (truthyStr (STRAPI_API_TOKEN e) \<longrightarrow> status (fst (POST e w store req)) = 400)"
  using assms captchaLayer_token_missing [where e = e and reqBody = reqBody and w = w
      and ip = "clientIp req"]
  by (simp add: POST_def Let_def errorResponse_def)

text \<open>
  C4, amended. The CAPTCHA layer is skipped exactly when \<open>IS_DEV\<close> holds and the secret
  key is unset, empty or the placeholder; a request that gets to the skipped layer goes
  straight on to the IP rate limit, with no call of the verification service. Otherwise
  a missing, non-string or blank \<open>recaptchaToken\<close> never leads to a call of the
  verification service (nor to any other call): with \<open>STRAPI_API_TOKEN\<close> configured the
  response is 400, and it is \<open>reCAPTCHA verification required\<close> when the honeypot is
  clear; with \<open>STRAPI_API_TOKEN\<close> not configured it is the 500 of the configuration
  check. A request with a non-blank token that gets that far calls the service first, is
  rejected with 400 when the result is not valid and goes on to the IP rate limit when
  it is. The request body is one that parsed to a value other than \<open>null\<close>.
\<close>

theorem captcha_enforcement:
  assumes "jsonBody req = Some (PValue reqBody)"
  shows
    "(\<not> REQUIRE_CAPTCHA e \<longleftrightarrow>
        IS_DEV e \<and>
        (RECAPTCHA_SECRET_KEY e = None \<or> RECAPTCHA_SECRET_KEY e = Some [] \<or>
         RECAPTCHA_SECRET_KEY e = Some ''your_secret_key_here'')) \<and>
     (\<not> REQUIRE_CAPTCHA e \<longrightarrow> captchaLayer e w reqBody (clientIp req) = (None, [])) \<and>
     (REQUIRE_CAPTCHA e \<and> tokenMissing (reqBody ''recaptchaToken'') \<longrightarrow>
        fst (snd (POST e w store req)) = [] \<and>
        (truthyStr (STRAPI_API_TOKEN e) \<longrightarrow> status (fst (POST e w store req)) = 400) \<and>
        (truthyStr (STRAPI_API_TOKEN e) \<and>
         \<not> truthy (reqBody ''website_url'') \<and> \<not> truthy (reqBody ''website'') \<longrightarrow>
           POST e w store req =
             (\<lparr>status = 400, body = Error ''reCAPTCHA verification required'',
               retryAfterHeader = None\<rparr>, [], store)) \<and>
        (\<not> truthyStr (STRAPI_API_TOKEN e) \<longrightarrow>
           POST e w store req =
             (\<lparr>status = 500, body = Error ''Server configuration error'',
               retryAfterHeader = None\<rparr>, [], store))) \<and>
     (REQUIRE_CAPTCHA e \<and> \<not> tokenMissing (reqBody ''recaptchaToken'') \<and>
      truthyStr (STRAPI_API_TOKEN e) \<and>
      \<not> truthy (reqBody ''website_url'') \<and> \<not> truthy (reqBody ''website'') \<longrightarrow>
        (\<exists>token r.
           reqBody ''recaptchaToken'' = Some (JStr token) \<and>
           verifyRecaptcha (siteverify w) token (RECAPTCHA_SECRET_KEY e) (Some (clientIp req)) =
             Inr r \<and>
           hd (fst (snd (POST e w store req))) =
             VerifyCall (verifyParams token (RECAPTCHA_SECRET_KEY e) (Some (clientIp req))) \<and>
           (\<not> isRecaptchaValid r \<longrightarrow>
              POST e w store req =
                (\<lparr>status = 400, body = Error ''reCAPTCHA verification failed'',
                  retryAfterHeader = None\<rparr>,
                 [VerifyCall (verifyParams token (RECAPTCHA_SECRET_KEY e) (Some (clientIp req)))],
                 store)) \<and>
           (isRecaptchaValid r \<longrightarrow>
              POST e w store req =
                (fst (ipLayer w store reqBody (clientIp req)),
                 VerifyCall (verifyParams token (RECAPTCHA_SECRET_KEY e) (Some (clientIp req))) #
                   fst (snd (ipLayer w store reqBody (clientIp req))),
                 snd (snd (ipLayer w store reqBody (clientIp req))))))) \<and>
     (\<not> REQUIRE_CAPTCHA e \<and> truthyStr (STRAPI_API_TOKEN e) \<and>
      \<not> truthy (reqBody ''website_url'') \<and> \<not> truthy (reqBody ''website'') \<longrightarrow>
        POST e w store req = ipLayer w store reqBody (clientIp req))"
proof (intro conjI impI)
  show "\<not> REQUIRE_CAPTCHA e \<longleftrightarrow>
        IS_DEV e \<and>
        (RECAPTCHA_SECRET_KEY e = None \<or> RECAPTCHA_SECRET_KEY e = Some [] \<or>
         RECAPTCHA_SECRET_KEY e = Some ''your_secret_key_here'')"
    by (rule REQUIRE_CAPTCHA_iff)
next
  assume "\<not> REQUIRE_CAPTCHA e"
  then show "captchaLayer e w reqBody (clientIp req) = (None, [])"
    by (rule captchaLayer_skipped)
next
  assume a: "REQUIRE_CAPTCHA e \<and> tokenMissing (reqBody ''recaptchaToken'')"
  then show "fst (snd (POST e w store req)) = []"
    using POST_no_verify_when_token_missing [OF assms, of e w store] by simp
next
  assume a: "REQUIRE_CAPTCHA e \<and> tokenMissing (reqBody ''recaptchaToken'')"
    and "truthyStr (STRAPI_API_TOKEN e)"
  then show "status (fst (POST e w store req)) = 400"
    using POST_no_verify_when_token_missing [OF assms, of e w store] by simp
next
  assume a: "REQUIRE_CAPTCHA e \<and> tokenMissing (reqBody ''recaptchaToken'')"
    and b: "truthyStr (STRAPI_API_TOKEN e) \<and>
         \<not> truthy (reqBody ''website_url'') \<and> \<not> truthy (reqBody ''website'')"
  have "captchaLayer e w reqBody (clientIp req) =
      (Some (errorResponse 400 ''reCAPTCHA verification required''), [])"
    using a by (simp add: captchaLayer_token_missing)
  then show "POST e w store req =
             (\<lparr>status = 400, body = Error ''reCAPTCHA verification required'',
               retryAfterHeader = None\<rparr>, [], store)"
    using b assms by (simp add: POST_captcha_rejects errorResponse_def)
next
  assume "\<not> truthyStr (STRAPI_API_TOKEN e)"
  then show "POST e w store req =
             (\<lparr>status = 500, body = Error ''Server configuration error'',
               retryAfterHeader = None\<rparr>, [], store)"
    by (simp add: POST_unconfigured errorResponse_def)
next
  assume a: "REQUIRE_CAPTCHA e \<and> \<not> tokenMissing (reqBody ''recaptchaToken'') \<and>
      truthyStr (STRAPI_API_TOKEN e) \<and>
      \<not> truthy (reqBody ''website_url'') \<and> \<not> truthy (reqBody ''website'')"
  then obtain token where tok: "reqBody ''recaptchaToken'' = Some (JStr token)"
    and nonblank: "trim token \<noteq> []"
    by (auto simp: tokenMissing_def split: option.splits json.splits)
  obtain r where r: "verifyRecaptcha (siteverify w) token (RECAPTCHA_SECRET_KEY e)
      (Some (clientIp req)) = Inr r"
    using verifyRecaptcha_Inr by blast
  let ?call = "VerifyCall (verifyParams token (RECAPTCHA_SECRET_KEY e) (Some (clientIp req)))"
  have layer: "captchaLayer e w reqBody (clientIp req) =
      (if isRecaptchaValid r then None
       else Some (errorResponse 400 ''reCAPTCHA verification failed''), [?call])"
    using a tok nonblank r by (simp add: captchaLayer_verifies)
  have first: "hd (fst (snd (POST e w store req))) = ?call"
  proof (cases "isRecaptchaValid r")
    case True
    then have "captchaLayer e w reqBody (clientIp req) = (None, [?call])"
      using layer by simp
    then show ?thesis using a assms by (simp add: POST_reaches_ipLayer)
  next
    case False
    then have "captchaLayer e w reqBody (clientIp req) =
        (Some (errorResponse 400 ''reCAPTCHA verification failed''), [?call])"
      using layer by simp
    then show ?thesis using a assms by (simp add: POST_captcha_rejects)
  qed
  have failed: "POST e w store req =
      (\<lparr>status = 400, body = Error ''reCAPTCHA verification failed'', retryAfterHeader = None\<rparr>,
       [?call], store)" if "\<not> isRecaptchaValid r"
  proof -
    have "captchaLayer e w reqBody (clientIp req) =
        (Some (errorResponse 400 ''reCAPTCHA verification failed''), [?call])"
      using layer that by simp
    then show ?thesis using a assms by (simp add: POST_captcha_rejects errorResponse_def)
  qed
  have passed: "POST e w store req =
      (fst (ipLayer w store reqBody (clientIp req)),
       ?call # fst (snd (ipLayer w store reqBody (clientIp req))),
       snd (snd (ipLayer w store reqBody (clientIp req))))" if "isRecaptchaValid r"
  proof -
    have "captchaLayer e w reqBody (clientIp req) = (None, [?call])"
      using layer that by simp
    then show ?thesis using a assms by (simp add: POST_reaches_ipLayer)
  qed
  show "\<exists>token r.
           reqBody ''recaptchaToken'' = Some (JStr token) \<and>
           verifyRecaptcha (siteverify w) token (RECAPTCHA_SECRET_KEY e) (Some (clientIp req)) =
             Inr r \<and>
           hd (fst (snd (POST e w store req))) =
             VerifyCall (verifyParams token (RECAPTCHA_SECRET_KEY e) (Some (clientIp req))) \<and>
           (\<not> isRecaptchaValid r \<longrightarrow>
              POST e w store req =
                (\<lparr>status = 400, body = Error ''reCAPTCHA verification failed'',
                  retryAfterHeader = None\<rparr>,
                 [VerifyCall (verifyParams token (RECAPTCHA_SECRET_KEY e) (Some (clientIp req)))],
                 store)) \<and>
           (isRecaptchaValid r \<longrightarrow>
              POST e w store req =
                (fst (ipLayer w store reqBody (clientIp req)),
                 VerifyCall (verifyParams token (RECAPTCHA_SECRET_KEY e) (Some (clientIp req))) #
                   fst (snd (ipLayer w store reqBody (clientIp req))),
                 snd (snd (ipLayer w store reqBody (clientIp req)))))"
    using tok r first failed passed by blast
next
  assume a: "\<not> REQUIRE_CAPTCHA e \<and> truthyStr (STRAPI_API_TOKEN e) \<and>
      \<not> truthy (reqBody ''website_url'') \<and> \<not> truthy (reqBody ''website'')"
  then have "captchaLayer e w reqBody (clientIp req) = (None, [])"
    by (simp add: captchaLayer_skipped)
  then show "POST e w store req = ipLayer w store reqBody (clientIp req)"
    using a assms by (simp add: POST_reaches_ipLayer)
qed

text \<open>
  C4 as stated fails: in production a request without a token gets 500, not 400, when
  \<open>STRAPI_API_TOKEN\<close> is not configured, and when its body is the JSON value \<open>null\<close>.
\<close>

theorem missing_token_can_get_500:
  "REQUIRE_CAPTCHA exUnconfiguredEnv \<and>
   tokenMissing ((exMessage(''recaptchaToken'' := None)) ''recaptchaToken'') \<and>
   fst (POST exUnconfiguredEnv (exWorld 0 0) Map.empty
          (exRequest (Some ''203.0.113.9'') (exMessage(''recaptchaToken'' := None)))) =
     \<lparr>status = 500, body = Error ''Server configuration error'', retryAfterHeader = None\<rparr> \<and>
   REQUIRE_CAPTCHA exProdEnv \<and>
   fst (POST exProdEnv (exWorld 0 0) Map.empty
          \<lparr>clientAddress = Some ''203.0.113.9'', xForwardedFor = Returns None,
           jsonBody = Some PNull\<rparr>) =
     \<lparr>status = 500, body = Error ''Internal server error'', retryAfterHeader = None\<rparr>"
  by (simp add: POST_def exUnconfiguredEnv_def exProdEnv_def errorResponse_def internalError_def
      REQUIRE_CAPTCHA_def IS_DEV_def tokenMissing_def)

text \<open>Development without a key skips; production rejects a token of two spaces.\<close>

theorem captcha_enforcement_witness:
  "\<not> REQUIRE_CAPTCHA exDevEnv \<and> REQUIRE_CAPTCHA exProdEnv \<and>
   POST exProdEnv (exWorld 0 0) Map.empty
      (exRequest (Some ''203.0.113.9'') (exMessage(''recaptchaToken'' \<mapsto> JStr ''  ''))) =
     (\<lparr>status = 400, body = Error ''reCAPTCHA verification required'', retryAfterHeader = None\<rparr>,
      [], Map.empty)"
proof -
  let ?body = "exMessage(''recaptchaToken'' \<mapsto> JStr ''  '')"
  let ?req = "exRequest (Some ''203.0.113.9'') ?body"
  have h: "jsonBody ?req = Some (PValue ?body)"
    by (simp add: exRequest_def)
  have dev: "IS_DEV exDevEnv \<and> RECAPTCHA_SECRET_KEY exDevEnv = None"
    by (simp add: exDevEnv_def IS_DEV_def)
  have prod: "\<not> IS_DEV exProdEnv \<and> truthyStr (STRAPI_API_TOKEN exProdEnv)"
    by (simp add: exProdEnv_def IS_DEV_def)
  have blank: "tokenMissing (?body ''recaptchaToken'')"
    by (simp add: tokenMissing_def trim_def isWhiteSpace_def)
  have clear: "\<not> truthy (?body ''website_url'') \<and> \<not> truthy (?body ''website'')"
    by (simp add: exMessage_def)
  note inDev = captcha_enforcement [OF h, of exDevEnv "exWorld 0 0" Map.empty]
  note inProd = captcha_enforcement [OF h, of exProdEnv "exWorld 0 0" Map.empty]
  have skipped: "\<not> REQUIRE_CAPTCHA exDevEnv"
    using inDev [THEN conjunct1] dev by simp
  have required: "REQUIRE_CAPTCHA exProdEnv"
    using inProd [THEN conjunct1] prod by simp
  have "POST exProdEnv (exWorld 0 0) Map.empty ?req =
      (\<lparr>status = 400, body = Error ''reCAPTCHA verification required'', retryAfterHeader = None\<rparr>,
       [], Map.empty)"
    using inProd [THEN conjunct2, THEN conjunct2, THEN conjunct1] required blank prod clear
    by simp
  then show ?thesis using skipped required by simp
qed

section \<open>The IP rate limit in the endpoint\<close>

lemma POST_ip_denied:
  assumes "truthyStr (STRAPI_API_TOKEN e)"
    and "jsonBody req = Some (PValue reqBody)"
    and "\<not> truthy (reqBody ''website_url'')" and "\<not> truthy (reqBody ''website'')"
    and "fst (captchaLayer e w reqBody (clientIp req)) = None"
    and "store (trim (toLowerCase (''ip:'' @ clientIp req))) = Some entry"
    and "MAX_REQUESTS_PER_IP \<le> count entry"
    and "ipCheckAt w - firstRequestAt entry \<le> WINDOW_MS"
  shows "fst (POST e w store req) =
           rateLimitResponse ''Too many requests''
             (getResetTimeSeconds (ipResetReadAt w) (firstRequestAt entry + WINDOW_MS))"
proof -
  obtain calls where "captchaLayer e w reqBody (clientIp req) = (None, calls)"
    using assms(5) by (cases "captchaLayer e w reqBody (clientIp req)") simp
  then have "fst (POST e w store req) = fst (ipLayer w store reqBody (clientIp req))"
    using assms(1-4) by (simp add: POST_reaches_ipLayer)
  also have "ipLayer w store reqBody (clientIp req) =
           (rateLimitResponse ''Too many requests''
              (getResetTimeSeconds (ipResetReadAt w) (firstRequestAt entry + WINDOW_MS)),
            [IpRateLimitCheck (clientIp req)], store)"
    using assms(6,8,7) by (rule ipLayer_denied [where store = store])
  finally show ?thesis by simp
qed

text \<open>
  C8, amended. A submission that reaches the IP rate limit (token configured, body
  parsed, honeypot clear, CAPTCHA layer passed) while the entry of its IP holds at least 5
  requests in a window still active gets 429; the \<open>retryAfter\<close> of the JSON body is
  \<open>getResetTimeSeconds\<close> of the window's end at the clock reading taken after the denial,
  the \<open>Retry-After\<close> header is the same number as text, and the number is positive
  exactly when that reading is before the window's end.
\<close>

theorem ip_limit_exceeded_response:
  assumes "truthyStr (STRAPI_API_TOKEN e)"
    and "jsonBody req = Some (PValue reqBody)"
    and "\<not> truthy (reqBody ''website_url'')" and "\<not> truthy (reqBody ''website'')"
    and "fst (captchaLayer e w reqBody (clientIp req)) = None"
    and "store (trim (toLowerCase (''ip:'' @ clientIp req))) = Some entry"
    and "MAX_REQUESTS_PER_IP \<le> count entry"
    and "ipCheckAt w - firstRequestAt entry \<le> WINDOW_MS"
  shows "fst (POST e w store req) =
           \<lparr>status = 429,
            body = ErrorRetryAfter ''Too many requests''
              (getResetTimeSeconds (ipResetReadAt w) (firstRequestAt entry + WINDOW_MS)),
            retryAfterHeader = Some (numberToString
              (getResetTimeSeconds (ipResetReadAt w) (firstRequestAt entry + WINDOW_MS)))\<rparr> \<and>
         (0 < getResetTimeSeconds (ipResetReadAt w) (firstRequestAt entry + WINDOW_MS) \<longleftrightarrow>
            ipResetReadAt w < firstRequestAt entry + WINDOW_MS)"
  using POST_ip_denied [where store = store, OF assms]
  by (simp add: rateLimitResponse_def getResetTimeSeconds_positive)

lemma exFiveRequests_entry:
  "exFiveRequests (trim (toLowerCase (''ip:'' @ ''203.0.113.9''))) =
     Some \<lparr>count = 5, firstRequestAt = 0\<rparr>"
  by (simp add: exFiveRequests_def checkRepeatedly_Cons_snd checkRateLimit_def Let_def
      MAX_REQUESTS_PER_IP_def WINDOW_MS_def
      trim_def toLowerCase_def toLowerChar_def isWhiteSpace_def)

lemma exRequest_passes_captcha:
  "fst (captchaLayer exProdEnv (exWorld a b) exMessage ip) = None"
  by (simp add: captchaLayer_def exProdEnv_def exWorld_def exMessage_def exHumanVerdict_def
      REQUIRE_CAPTCHA_def IS_DEV_def tokenMissing_def trim_def isWhiteSpace_def
      verifyRecaptcha_def verifyRecaptchaTry_def isRecaptchaValid_def)

text \<open>
  C8 as stated fails: five requests from \<open>t = 0\<close> on, the sixth checked at
  \<open>t = 3599999\<close>, inside the hour, and the clock read again one millisecond later:
  \<open>retryAfter\<close> is 0.
\<close>

theorem sixth_request_retry_after_zero:
  "fst (POST exProdEnv (exWorld 3599999 3600000) exFiveRequests
          (exRequest (Some ''203.0.113.9'') exMessage)) =
     \<lparr>status = 429, body = ErrorRetryAfter ''Too many requests'' 0,
      retryAfterHeader = Some ''0''\<rparr>"
proof -
  let ?req = "exRequest (Some ''203.0.113.9'') exMessage"
  have ip: "clientIp ?req = ''203.0.113.9''"
    by (simp add: clientIp_def exRequest_def)
  have "fst (POST exProdEnv (exWorld 3599999 3600000) exFiveRequests ?req) =
      rateLimitResponse ''Too many requests''
        (getResetTimeSeconds (ipResetReadAt (exWorld 3599999 3600000))
           (firstRequestAt \<lparr>count = 5, firstRequestAt = 0\<rparr> + WINDOW_MS))"
  proof (rule POST_ip_denied [where reqBody = exMessage])
    show "truthyStr (STRAPI_API_TOKEN exProdEnv)" by (simp add: exProdEnv_def)
    show "jsonBody ?req = Some (PValue exMessage)" by (simp add: exRequest_def)
    show "\<not> truthy (exMessage ''website_url'')" by (simp add: exMessage_def)
    show "\<not> truthy (exMessage ''website'')" by (simp add: exMessage_def)
    show "fst (captchaLayer exProdEnv (exWorld 3599999 3600000) exMessage (clientIp ?req)) = None"
      by (rule exRequest_passes_captcha)
    show "exFiveRequests (trim (toLowerCase (''ip:'' @ clientIp ?req))) =
        Some \<lparr>count = 5, firstRequestAt = 0\<rparr>"
      unfolding ip by (rule exFiveRequests_entry)
    show "MAX_REQUESTS_PER_IP \<le> count \<lparr>count = 5, firstRequestAt = 0\<rparr>"
      by (simp add: MAX_REQUESTS_PER_IP_def)
    show "ipCheckAt (exWorld 3599999 3600000) - firstRequestAt \<lparr>count = 5, firstRequestAt = 0\<rparr>
        \<le> WINDOW_MS"
      by (simp add: exWorld_def WINDOW_MS_def)
  qed
  moreover have "getResetTimeSeconds (ipResetReadAt (exWorld 3599999 3600000))
      (firstRequestAt \<lparr>count = 5, firstRequestAt = 0\<rparr> + WINDOW_MS) = 0"
    by (simp add: getResetTimeSeconds_def exWorld_def WINDOW_MS_def)
  moreover have "numberToString 0 = ''0''"
    by code_simp
  ultimately show ?thesis
    by (simp add: rateLimitResponse_def)
qed

text \<open>The sixth request half an hour after the first: 1800 seconds.\<close>

theorem ip_limit_exceeded_response_witness:
  "fst (POST exProdEnv (exWorld 1800000 1800002) exFiveRequests
          (exRequest (Some ''203.0.113.9'') exMessage)) =
     \<lparr>status = 429, body = ErrorRetryAfter ''Too many requests'' 1800,
      retryAfterHeader = Some ''1800''\<rparr>"
proof -
  let ?req = "exRequest (Some ''203.0.113.9'') exMessage"
  let ?w = "exWorld 1800000 1800002"
  have ip: "clientIp ?req = ''203.0.113.9''"
    by (simp add: clientIp_def exRequest_def)
  have h1: "truthyStr (STRAPI_API_TOKEN exProdEnv)" by (simp add: exProdEnv_def)
  have h2: "jsonBody ?req = Some (PValue exMessage)" by (simp add: exRequest_def)
  have h3: "\<not> truthy (exMessage ''website_url'')" by (simp add: exMessage_def)
  have h4: "\<not> truthy (exMessage ''website'')" by (simp add: exMessage_def)
  have h5: "fst (captchaLayer exProdEnv ?w exMessage (clientIp ?req)) = None"
    by (rule exRequest_passes_captcha)
  have h6: "exFiveRequests (trim (toLowerCase (''ip:'' @ clientIp ?req))) =
        Some \<lparr>count = 5, firstRequestAt = 0\<rparr>"
    unfolding ip by (rule exFiveRequests_entry)
  have h7: "MAX_REQUESTS_PER_IP \<le> count \<lparr>count = 5, firstRequestAt = 0\<rparr>"
    by (simp add: MAX_REQUESTS_PER_IP_def)
  have h8: "ipCheckAt ?w - firstRequestAt \<lparr>count = 5, firstRequestAt = 0\<rparr> \<le> WINDOW_MS"
    by (simp add: exWorld_def WINDOW_MS_def)
  have n: "getResetTimeSeconds (ipResetReadAt ?w)
      (firstRequestAt \<lparr>count = 5, firstRequestAt = 0\<rparr> + WINDOW_MS) = 1800"
    by (simp add: getResetTimeSeconds_def exWorld_def WINDOW_MS_def)
  have str: "numberToString 1800 = ''1800''"
    by code_simp
  show ?thesis
    using ip_limit_exceeded_response [where store = exFiveRequests and reqBody = exMessage,
        OF h1 h2 h3 h4 h5 h6 h7 h8]
    unfolding n str by simp
qed

subsection \<open>The entry of the unidentified clients\<close>











end
